theory Spec2Isabelle
  imports Complex_Main
begin

section \<open>Python values\<close>

text \<open>
  The tutor is a set of Python classes whose data are plain Python values: strings,
  numbers, lists and dictionaries, most of them produced by \<^verbatim>\<open>json.loads\<close> from the text a
  language model returned. A Python \<^verbatim>\<open>str\<close> is a \<^typ>\<open>string\<close>, one \<^typ>\<open>char\<close> per code
  point (so the model covers the code points below 256). A dictionary is an association
  list in insertion order; a lookup takes the first entry of a key. Numbers are rationals:
  every finite \<^verbatim>\<open>int\<close> and \<^verbatim>\<open>float\<close> is one (the literals \<^verbatim>\<open>NaN\<close> and \<^verbatim>\<open>Infinity\<close>, which
  \<^verbatim>\<open>json.loads\<close> accepts beyond the JSON grammar, are left out).
\<close>

datatype json =
    JNull
  | JBool bool
  | JNum rat
  | JStr string
  | JArr "json list"
  | JObj "(string \<times> json) list"

text \<open>Every exception of the source is a value; a function that can raise returns
  \<open>py_error + 'a\<close>, with \<open>Inl\<close> the exception that escapes.\<close>

datatype py_error =
    ValueError
  | TypeError
  | AttributeError
  | ExternalError string

text \<open>\<^verbatim>\<open>d.get(key, default)\<close>: only a dictionary has the method.\<close>

fun py_get :: "json \<Rightarrow> string \<Rightarrow> json \<Rightarrow> py_error + json" where
  "py_get (JObj kvs) k d = Inr (case map_of kvs k of None \<Rightarrow> d | Some v \<Rightarrow> v)"
| "py_get _ k d = Inl AttributeError"

text \<open>\<^verbatim>\<open>len(v)\<close>: numbers, booleans and \<^verbatim>\<open>None\<close> have no length.\<close>

fun py_len :: "json \<Rightarrow> py_error + nat" where
  "py_len (JStr s) = Inr (length s)"
| "py_len (JArr xs) = Inr (length xs)"
| "py_len (JObj kvs) = Inr (length kvs)"
| "py_len _ = Inl TypeError"

text \<open>The truth value Python gives a value in \<^verbatim>\<open>if v:\<close>.\<close>

fun truthy :: "json \<Rightarrow> bool" where
  "truthy JNull = False"
| "truthy (JBool b) = b"
| "truthy (JNum q) = (q \<noteq> 0)"
| "truthy (JStr s) = (s \<noteq> [])"
| "truthy (JArr xs) = (xs \<noteq> [])"
| "truthy (JObj kvs) = (kvs \<noteq> [])"

text \<open>\<^verbatim>\<open>for x in v\<close>: a list yields its elements, a string its characters, a dictionary its
  keys; nothing else is iterable.\<close>

fun py_iter :: "json \<Rightarrow> py_error + json list" where
  "py_iter (JArr xs) = Inr xs"
| "py_iter (JStr s) = Inr (map (\<lambda>c. JStr [c]) s)"
| "py_iter (JObj kvs) = Inr (map (\<lambda>kv. JStr (fst kv)) kvs)"
| "py_iter _ = Inl TypeError"

text \<open>\<^verbatim>\<open>v[:n]\<close>: strings and lists can be sliced.\<close>

fun py_slice_to :: "nat \<Rightarrow> json \<Rightarrow> py_error + json" where
  "py_slice_to n (JStr s) = Inr (JStr (take n s))"
| "py_slice_to n (JArr xs) = Inr (JArr (take n xs))"
| "py_slice_to n _ = Inl TypeError"

text \<open>\<^verbatim>\<open>d[k] = v\<close> on a dictionary keeps the position of a key that is already there and
  appends a new one.\<close>

fun dict_set :: "string \<Rightarrow> json \<Rightarrow> (string \<times> json) list \<Rightarrow> (string \<times> json) list" where
  "dict_set k v [] = [(k, v)]"
| "dict_set k v ((k', v') # kvs) =
     (if k = k' then (k, v) # kvs else (k', v') # dict_set k v kvs)"

subsection \<open>String methods\<close>

fun startswith :: "string \<Rightarrow> string \<Rightarrow> bool" where
  "startswith [] s = True"
| "startswith (p # ps) [] = False"
| "startswith (p # ps) (c # cs) = (p = c \<and> startswith ps cs)"

text \<open>\<^verbatim>\<open>needle in text\<close> for two strings: the needle occurs at some position.\<close>

fun contains :: "string \<Rightarrow> string \<Rightarrow> bool" where
  "contains needle [] = (needle = [])"
| "contains needle (c # cs) = (startswith needle (c # cs) \<or> contains needle cs)"

text \<open>The characters \<^verbatim>\<open>str.strip()\<close> removes, among the code points below 256.\<close>

definition isspace :: "char \<Rightarrow> bool" where
  "isspace c =
     (let n = (of_char c :: nat)
      in (9 \<le> n \<and> n \<le> 13) \<or> (28 \<le> n \<and> n \<le> 32) \<or> n = 133 \<or> n = 160)"

definition strip :: "string \<Rightarrow> string" where
  "strip s = rev (dropWhile isspace (rev (dropWhile isspace s)))"

definition lower_char :: "char \<Rightarrow> char" where
  "lower_char c =
     (let n = (of_char c :: nat)
      in if (65 \<le> n \<and> n \<le> 90) \<or> (192 \<le> n \<and> n \<le> 222 \<and> n \<noteq> 215)
         then char_of (n + 32) else c)"

definition lower :: "string \<Rightarrow> string" where
  "lower s = map lower_char s"

text \<open>\<^verbatim>\<open>sep.join(xs)\<close>.\<close>

fun join :: "string \<Rightarrow> string list \<Rightarrow> string" where
  "join sep [] = []"
| "join sep [x] = x"
| "join sep (x # y # ys) = x @ sep @ join sep (y # ys)"

text \<open>\<^verbatim>\<open>len(s.split('\n'))\<close>: one more than the number of newlines.\<close>

definition line_count_of :: "string \<Rightarrow> nat" where
  "line_count_of s = Suc (length (filter (\<lambda>c. c = CHR 0x0A) s))"

text \<open>Sequencing of calls that can raise: the first exception ends the computation.\<close>

fun and_then :: "py_error + 'a \<Rightarrow> ('a \<Rightarrow> py_error + 'b) \<Rightarrow> py_error + 'b" where
  "and_then (Inl e) f = Inl e"
| "and_then (Inr x) f = f x"

section \<open>External collaborators\<close>

text \<open>
  The language model, the JSON parser, the similarity search, the clock, the UUID
  generator and Python's salted string hash are outside the program. An operation receives
  them as a record \<open>ext\<close>: the answers the outside world gives during that one operation.
  A prompt is the template it is built from together with the values the f-string
  interpolates; the fixed text of the templates is not modelled. The model answers a
  prompt with text (\<^verbatim>\<open>response.content\<close>) or the call raises. \<open>json_loads\<close> gives \<open>None\<close>
  where \<^verbatim>\<open>json.loads\<close> raises.
\<close>

datatype prompt =
    ConceptualTestsPrompt json json json string
  | FeedbackPrompt json string string json
  | ImprovementsPrompt string json
  | Level0HintPrompt json json
  | Level1HintPrompt json json string
  | Level2HintPrompt json json string
  | Level3HintPrompt json json
  | WelcomePrompt string
  | QuestionPrompt string string string string

record document =
  page_content :: string
  metadata :: "(string \<times> json) list"

record ext =
  llm :: "prompt \<Rightarrow> py_error + string"
  json_loads :: "string \<Rightarrow> json option"
  similarity_search :: "string \<Rightarrow> nat \<Rightarrow> py_error + document list"
  uuid4 :: string
  now :: "nat \<Rightarrow> string"
  str_hash :: "json \<Rightarrow> int"

section \<open>The evaluator agent (agents/EvalAgent.py)\<close>

record syntax_check =
  has_issues :: bool
  issues :: "string list"
  code_length :: nat
  line_count :: nat

definition check_syntax :: "string \<Rightarrow> syntax_check" where
  "check_syntax code =
     (let issues0 = [];
          issues1 = (if length (strip code) < 10
                     then issues0 @ [''Code appears incomplete''] else issues0);
          issues2 = (if \<not> contains ''def '' code \<and> \<not> contains ''class '' code
                     then issues1 @ [''No function or class definition found''] else issues1);
          issues3 = (if contains ''while True:'' code \<and> \<not> contains ''break'' code
                     then issues2 @ [''Potential infinite loop detected''] else issues2);
          issues4 = (if contains ''import '' code
                     then issues3 @ [''Note: Imports detected - ensure they're allowed'']
                     else issues3)
      in \<lparr>has_issues = length issues4 > 0, issues = issues4,
          code_length = length code, line_count = line_count_of code\<rparr>)"

definition conceptual_default :: json where
  "conceptual_default =
     JObj [(''approach_correct'', JBool False),
           (''edge_cases_handled'', JArr []),
           (''time_complexity'', JStr ''Unknown''),
           (''space_complexity'', JStr ''Unknown''),
           (''potential_bugs'', JArr [JStr ''Could not parse evaluation''])]"

definition run_conceptual_tests :: "ext \<Rightarrow> json \<Rightarrow> string \<Rightarrow> py_error + json" where
  "run_conceptual_tests x problem code =
     and_then (py_get problem ''title'' JNull) (\<lambda>title.
     and_then (py_get problem ''description'' (JStr [])) (\<lambda>description.
     and_then (py_get problem ''examples'' (JArr [])) (\<lambda>examples.
     and_then (llm x (ConceptualTestsPrompt title description examples code)) (\<lambda>content.
       Inr (case json_loads x content of
              Some v \<Rightarrow> v
            | None \<Rightarrow> conceptual_default)))))"

definition feedback_default :: json where
  "feedback_default =
     JObj [(''positives'', JArr [JStr ''Attempted to solve the problem'']),
           (''improvements_needed'', JArr [JStr ''Code needs more work'']),
           (''concept_gaps'', JArr []),
           (''specific_suggestions'', JArr [JStr ''Review the problem requirements''])]"

text \<open>\<^verbatim>\<open>explanation or 'No explanation provided'\<close>: \<^verbatim>\<open>None\<close> and the empty string both give
  the default.\<close>

definition generate_feedback ::
  "ext \<Rightarrow> json \<Rightarrow> string \<Rightarrow> string option \<Rightarrow> json \<Rightarrow> py_error + json" where
  "generate_feedback x problem code explanation test_results =
     and_then (py_get problem ''title'' JNull) (\<lambda>title.
     and_then (llm x (FeedbackPrompt title code
                 (case explanation of
                    None \<Rightarrow> ''No explanation provided''
                  | Some e \<Rightarrow> if e = [] then ''No explanation provided'' else e)
                 test_results)) (\<lambda>content.
       Inr (case json_loads x content of
              Some v \<Rightarrow> v
            | None \<Rightarrow> feedback_default)))"

text \<open>The score starts as the float \<^verbatim>\<open>0.0\<close> and only ever grows by 10, 20 or 40: every value
  it takes is a whole number of at most 100, which a float holds exactly, so it is an
  \<^typ>\<open>int\<close> here.\<close>

definition calculate_score :: "syntax_check \<Rightarrow> json \<Rightarrow> json \<Rightarrow> py_error + int" where
  "calculate_score syntax test_results feedback =
     (let score0 = 0;
          score1 = (if \<not> has_issues syntax then score0 + 20 else score0)
      in and_then (py_get test_results ''approach_correct'' (JBool False)) (\<lambda>approach.
         let score2 = (if truthy approach then score1 + 40 else score1)
         in and_then (py_get test_results ''edge_cases_handled'' (JArr [])) (\<lambda>edge_cases.
            and_then (py_len edge_cases) (\<lambda>n.
            let score3 = (if n \<ge> 2 then score2 + 20
                          else if n = 1 then score2 + 10 else score2)
            in and_then (py_get feedback ''positives'' (JArr [])) (\<lambda>positives.
               and_then (py_len positives) (\<lambda>m.
               let score4 = (if m \<ge> 2 then score3 + 20
                             else if m = 1 then score3 + 10 else score3)
               in Inr (min 100 score4)))))))"

fun general_suggestions :: "json list \<Rightarrow> py_error + json list" where
  "general_suggestions [] = Inr []"
| "general_suggestions (JStr improvement # rest) =
     and_then (general_suggestions rest) (\<lambda>suggestions.
       Inr (JObj [(''type'', JStr ''general''),
                  (''suggestion'', JStr improvement),
                  (''priority'', JStr (if contains ''critical'' (lower improvement)
                                        then ''high'' else ''medium''))]
            # suggestions))"
| "general_suggestions (_ # rest) = Inl AttributeError"

text \<open>\<^verbatim>\<open>[{"type": "code", **sugg} for sugg in code_suggestions]\<close>: the comprehension is
  built whole before \<^verbatim>\<open>extend\<close>, inside the \<^verbatim>\<open>try\<close>; an element that is not a dictionary
  raises, and the bare \<^verbatim>\<open>except\<close> then leaves the suggestions as they were (\<open>None\<close>).\<close>

fun code_suggestions :: "json list \<Rightarrow> json list option" where
  "code_suggestions [] = Some []"
| "code_suggestions (JObj sugg # rest) =
     (case code_suggestions rest of
        None \<Rightarrow> None
      | Some others \<Rightarrow>
          Some (JObj (fold (\<lambda>kv d. dict_set (fst kv) (snd kv) d) sugg
                        [(''type'', JStr ''code'')]) # others))"
| "code_suggestions (_ # rest) = None"

definition suggest_improvements :: "ext \<Rightarrow> string \<Rightarrow> json \<Rightarrow> json \<Rightarrow> py_error + json list" where
  "suggest_improvements x code problem feedback =
     and_then (py_get feedback ''improvements_needed'' (JArr [])) (\<lambda>needed.
     and_then (py_iter needed) (\<lambda>items.
     and_then (general_suggestions items) (\<lambda>suggestions.
     and_then (py_get problem ''title'' JNull) (\<lambda>title.
     and_then (llm x (ImprovementsPrompt code title)) (\<lambda>content.
       Inr (take 5
         (case json_loads x content of
            None \<Rightarrow> suggestions
          | Some parsed \<Rightarrow>
              (case py_iter parsed of
                 Inl e \<Rightarrow> suggestions
               | Inr elems \<Rightarrow>
                   (case code_suggestions elems of
                      None \<Rightarrow> suggestions
                    | Some others \<Rightarrow> suggestions @ others)))))))))"

definition recommend_next_steps :: "int \<Rightarrow> json \<Rightarrow> string list" where
  "recommend_next_steps sc feedback =
     (if sc \<ge> 90 then
        [''Try a harder variation of this problem'',
         ''Explain your solution to reinforce learning'',
         ''Help another student with similar problem'']
      else if sc \<ge> 70 then
        [''Review the suggested improvements'',
         ''Try the problem again with optimizations'',
         ''Practice similar problems'']
      else if sc \<ge> 50 then
        [''Review the core concept'',
         ''Study the solution approach'',
         ''Try a simpler version first'']
      else
        [''Review fundamental concepts'',
         ''Start with easier problems'',
         ''Ask for more hints on this problem''])"

record evaluation =
  score :: int
  syntax_check :: syntax_check
  test_results :: json
  feedback :: json
  improvements :: "json list"
  correctness :: bool
  next_steps :: "string list"

definition evaluate_solution ::
  "ext \<Rightarrow> json \<Rightarrow> string \<Rightarrow> string option \<Rightarrow> py_error + evaluation" where
  "evaluate_solution x problem student_code student_explanation =
     (let syntax = check_syntax student_code
      in and_then (run_conceptual_tests x problem student_code) (\<lambda>results.
         and_then (generate_feedback x problem student_code student_explanation results) (\<lambda>fb.
         and_then (calculate_score syntax results fb) (\<lambda>sc.
         and_then (suggest_improvements x student_code problem fb) (\<lambda>improved.
           Inr \<lparr>score = sc, syntax_check = syntax, test_results = results,
                feedback = fb, improvements = improved,
                correctness = (sc \<ge> 70),
                next_steps = recommend_next_steps sc fb\<rparr>)))))"

section \<open>The hint agent (agents/hintAgent.py)\<close>

text \<open>
  \<open>hint_history\<close> is a dictionary from problem id to level. The id is whatever the
  problem dictionary holds under \<^verbatim>\<open>"id"\<close>; as a dictionary key it must be hashable (lists
  and dictionaries are not), and \<^verbatim>\<open>True\<close> and \<^verbatim>\<open>1\<close> are the same key.
\<close>

datatype hkey = KNone | KNum rat | KStr string

fun py_hash :: "json \<Rightarrow> py_error + hkey" where
  "py_hash JNull = Inr KNone"
| "py_hash (JBool b) = Inr (KNum (if b then 1 else 0))"
| "py_hash (JNum q) = Inr (KNum q)"
| "py_hash (JStr s) = Inr (KStr s)"
| "py_hash _ = Inl TypeError"

record HintAgent =
  hint_history :: "hkey \<rightharpoonup> int"

record hint_reply =
  hint :: string
  hint_level :: int
  max_level :: int
  next_level_available :: bool

definition get_level_0_hint :: "ext \<Rightarrow> json \<Rightarrow> py_error + string" where
  "get_level_0_hint x problem =
     and_then (py_get problem ''title'' JNull) (\<lambda>title.
     and_then (py_get problem ''description'' (JStr [])) (\<lambda>description.
     and_then (py_slice_to 500 description) (\<lambda>shown.
       llm x (Level0HintPrompt title shown))))"

definition get_level_1_hint :: "ext \<Rightarrow> json \<Rightarrow> string option \<Rightarrow> py_error + string" where
  "get_level_1_hint x problem student_approach =
     (let approach_context =
            (case student_approach of
               None \<Rightarrow> []
             | Some a \<Rightarrow> if a = [] then []
                         else CHR 0x0A # ''Student mentioned they're trying: '' @ a)
      in and_then (py_get problem ''title'' JNull) (\<lambda>title.
         and_then (py_get problem ''description'' (JStr [])) (\<lambda>description.
         and_then (py_slice_to 500 description) (\<lambda>shown.
           llm x (Level1HintPrompt title shown approach_context)))))"

definition get_level_2_hint :: "ext \<Rightarrow> json \<Rightarrow> string option \<Rightarrow> py_error + string" where
  "get_level_2_hint x problem student_code =
     (let code_context =
            (case student_code of
               None \<Rightarrow> []
             | Some c \<Rightarrow> if c = [] then []
                         else CHR 0x0A # ''Student's current code:'' @ CHR 0x0A # c)
      in and_then (py_get problem ''title'' JNull) (\<lambda>title.
         and_then (py_get problem ''description'' (JStr [])) (\<lambda>description.
         and_then (py_slice_to 500 description) (\<lambda>shown.
           llm x (Level2HintPrompt title shown code_context)))))"

definition get_level_3_hint :: "ext \<Rightarrow> json \<Rightarrow> py_error + string" where
  "get_level_3_hint x problem =
     and_then (py_get problem ''title'' JNull) (\<lambda>title.
     and_then (py_get problem ''description'' (JStr [])) (\<lambda>description.
     and_then (py_slice_to 500 description) (\<lambda>shown.
       llm x (Level3HintPrompt title shown))))"

text \<open>The history is written twice: the entry of a new problem id is created before the
  hint is generated, and the level is stored after it. A generator that raises leaves the
  first write behind.\<close>

definition get_progressive_hints ::
  "ext \<Rightarrow> HintAgent \<Rightarrow> json \<Rightarrow> string option \<Rightarrow> string option \<Rightarrow> int
     \<Rightarrow> (py_error + hint_reply) \<times> HintAgent" where
  "get_progressive_hints x agent problem student_code student_approach requested =
     (case and_then (py_get problem ''id'' (JStr ''unknown'')) py_hash of
        Inl e \<Rightarrow> (Inl e, agent)
      | Inr problem_id \<Rightarrow>
          (let history = (case hint_history agent problem_id of
                            None \<Rightarrow> (hint_history agent)(problem_id \<mapsto> 0)
                          | Some stored \<Rightarrow> hint_history agent);
               stored_level = (case history problem_id of None \<Rightarrow> 0 | Some stored \<Rightarrow> stored);
               current_level = max stored_level requested
           in case (if current_level = 0 then get_level_0_hint x problem
                    else if current_level = 1 then get_level_1_hint x problem student_approach
                    else if current_level = 2 then get_level_2_hint x problem student_code
                    else get_level_3_hint x problem) of
                Inl e \<Rightarrow> (Inl e, agent\<lparr>hint_history := history\<rparr>)
              | Inr text \<Rightarrow>
                  (Inr \<lparr>hint = text, hint_level = current_level, max_level = 3,
                        next_level_available = (current_level < 3)\<rparr>,
                   agent\<lparr>hint_history := history(problem_id \<mapsto> current_level + 1)\<rparr>)))"

section \<open>The knowledge base and the enumerations (knowledge\_base.py)\<close>

datatype difficulty = EASY | MEDIUM | HARD

fun difficulty_value :: "difficulty \<Rightarrow> string" where
  "difficulty_value EASY = ''Easy''"
| "difficulty_value MEDIUM = ''Medium''"
| "difficulty_value HARD = ''Hard''"

text \<open>\<^verbatim>\<open>Difficulty(value)\<close>: the member with that value, or \<^verbatim>\<open>ValueError\<close>.\<close>

definition Difficulty :: "string \<Rightarrow> py_error + difficulty" where
  "Difficulty v =
     (if v = ''Easy'' then Inr EASY
      else if v = ''Medium'' then Inr MEDIUM
      else if v = ''Hard'' then Inr HARD
      else Inl ValueError)"

text \<open>The values of the members of \<^verbatim>\<open>Topic\<close>, in declaration order.\<close>

definition Topic_values :: "string list" where
  "Topic_values =
     [''Arrays'', ''Linked Lists'', ''Trees'', ''Graphs'', ''Sorting'', ''Searching'',
      ''Dynamic Programming'', ''Recursion'', ''Backtracking'', ''Queues'', ''Stacks'']"

definition query :: "ext \<Rightarrow> string \<Rightarrow> string \<Rightarrow> py_error + document list" where
  "query x question topic =
     similarity_search x
       (if topic \<noteq> [] then question @ '' [Topic: '' @ topic @ '']'' else question) 5"

section \<open>The teacher agent (agents/teacherAgent.py)\<close>

text \<open>Mastery values are floats in the source; they are rationals here, and \<open>py_round1\<close>
  is \<^verbatim>\<open>round(v, 1)\<close> on them (ties to the even digit), without the rounding error of
  binary floating point.\<close>

record progress =
  total_sessions :: int
  topics_mastery :: "(string \<times> rat) list"
  weak_areas :: "string list"
  learning_path :: "json list"

record session =
  session_id :: string
  student_id :: string
  topics :: "string list"
  session_difficulty :: difficulty
  start_time :: string
  problems_attempted :: "json list"
  concepts_covered :: "json list"
  performance_metrics :: "(string \<times> json) list"

record TeacherAgent =
  student_progress :: "string \<rightharpoonup> progress"
  current_session :: "session option"

record session_info =
  info_session_id :: string
  welcome_message :: string
  learning_plan :: "json list"
  first_concept :: json

definition is_type :: "string \<Rightarrow> document \<Rightarrow> bool" where
  "is_type t d = (map_of (metadata d) ''type'' = Some (JStr t))"

definition topic_plan :: "ext \<Rightarrow> string \<Rightarrow> difficulty \<Rightarrow> py_error + json list" where
  "topic_plan x topic d =
     and_then (query x (''Introduction to '' @ topic) topic) (\<lambda>docs.
       let plan1 =
             (case find (is_type ''concept'') docs of
                None \<Rightarrow> []
              | Some concept_doc \<Rightarrow>
                  [JObj [(''type'', JStr ''concept''),
                         (''topic'', JStr topic),
                         (''content'', JStr (take 500 (page_content concept_doc) @ ''...'')),
                         (''difficulty'', JStr (difficulty_value d))]])
       in and_then (query x (difficulty_value d @ '' problem about '' @ topic) topic) (\<lambda>docs2.
            Inr (case filter (is_type ''problem'') docs2 of
                   [] \<Rightarrow> plan1
                 | problem_doc # _ \<Rightarrow>
                     plan1 @
                     [JObj [(''type'', JStr ''problem''),
                            (''topic'', JStr topic),
                            (''problem_id'',
                               (case map_of (metadata problem_doc) ''problem_id'' of
                                  None \<Rightarrow> JNull
                                | Some v \<Rightarrow> v)),
                            (''difficulty'', JStr (difficulty_value d))]])))"

fun generate_learning_plan :: "ext \<Rightarrow> string list \<Rightarrow> difficulty \<Rightarrow> py_error + json list" where
  "generate_learning_plan x [] d = Inr []"
| "generate_learning_plan x (topic # rest) d =
     and_then (topic_plan x topic d) (\<lambda>plan.
     and_then (generate_learning_plan x rest d) (\<lambda>plans.
       Inr (plan @ plans)))"

definition generate_welcome_message :: "ext \<Rightarrow> string list \<Rightarrow> py_error + string" where
  "generate_welcome_message x ts = llm x (WelcomePrompt (join '', '' ts))"

definition initial_progress :: progress where
  "initial_progress =
     \<lparr>total_sessions = 0,
      topics_mastery = map (\<lambda>t. (t, 0)) Topic_values,
      weak_areas = [],
      learning_path = []\<rparr>"

text \<open>The session and the student's record are written before the learning plan and the
  welcome message are generated: a search or a model call that raises leaves the session
  counted.\<close>

definition start_teaching_session ::
  "ext \<Rightarrow> TeacherAgent \<Rightarrow> string \<Rightarrow> string list \<Rightarrow> difficulty
     \<Rightarrow> (py_error + session_info) \<times> TeacherAgent" where
  "start_teaching_session x t sid ts d =
     (let new_id = uuid4 x;
          t1 = t\<lparr>current_session := Some
                 \<lparr>session_id = new_id, student_id = sid, topics = ts,
                  session_difficulty = d, start_time = now x 0,
                  problems_attempted = [], concepts_covered = [],
                  performance_metrics = []\<rparr>\<rparr>;
          record0 = (case student_progress t1 sid of
                       None \<Rightarrow> initial_progress
                     | Some p \<Rightarrow> p);
          t2 = t1\<lparr>student_progress := (student_progress t1)
                 (sid \<mapsto> record0\<lparr>total_sessions := total_sessions record0 + 1\<rparr>)\<rparr>
      in case generate_learning_plan x ts d of
           Inl e \<Rightarrow> (Inl e, t2)
         | Inr plan \<Rightarrow>
             (case generate_welcome_message x ts of
                Inl e \<Rightarrow> (Inl e, t2)
              | Inr welcome \<Rightarrow>
                  (Inr \<lparr>info_session_id = new_id, welcome_message = welcome,
                        learning_plan = plan,
                        first_concept = (case plan of [] \<Rightarrow> JNull | first # _ \<Rightarrow> first)\<rparr>,
                   t2)))"

section \<open>The question generator (agents/QGenAgent.py)\<close>

text \<open>\<^verbatim>\<open>f"{n:04d}"\<close> for \<open>0 \<le> n < 10000\<close>.\<close>

definition format_04d :: "int \<Rightarrow> string" where
  "format_04d n = map (\<lambda>k. char_of (48 + (n div k) mod 10)) [1000, 100, 10, 1]"

definition create_fallback_problem :: "ext \<Rightarrow> string \<Rightarrow> difficulty \<Rightarrow> string \<Rightarrow> json" where
  "create_fallback_problem x topic d content =
     JObj [(''id'', JStr (''fallback_'' @ take 8 (uuid4 x))),
           (''title'', JStr (topic @ '' Problem'')),
           (''description'', JStr (take 500 content)),
           (''topic'', JStr topic),
           (''difficulty'', JStr (difficulty_value d)),
           (''input_format'', JStr ''Standard input format''),
           (''output_format'', JStr ''Standard output format''),
           (''constraints'', JStr ''1 <= n <= 10^5''),
           (''examples'', JArr [JObj [(''input'', JStr ''Sample input''),
                                       (''output'', JStr ''Sample output'')]]),
           (''hints'', JArr [JStr ''Think about the core concept'',
                             JStr ''Consider edge cases'']),
           (''generated_at'', JStr (now x 0))]"

text \<open>Only \<^verbatim>\<open>json.JSONDecodeError\<close> is caught: a response that parses to something other
  than a dictionary raises \<^verbatim>\<open>TypeError\<close> at the first item assignment.\<close>

definition generate_question ::
  "ext \<Rightarrow> string \<Rightarrow> difficulty \<Rightarrow> string list option \<Rightarrow> py_error + json" where
  "generate_question x topic d student_weakness =
     and_then (query x (difficulty_value d @ '' problem about '' @ topic) topic) (\<lambda>docs.
       let weakness_context =
             (case student_weakness of
                None \<Rightarrow> []
              | Some ws \<Rightarrow> if ws = [] then []
                           else CHR 0x0A # ''Focus on these student weaknesses: '' @ join '', '' ws);
           context = (case docs of
                        [] \<Rightarrow> ''General DSA problem''
                      | doc # _ \<Rightarrow> take 1000 (page_content doc))
       in and_then (llm x (QuestionPrompt (difficulty_value d) topic context weakness_context))
            (\<lambda>content.
               case json_loads x content of
                 None \<Rightarrow> Inr (create_fallback_problem x topic d content)
               | Some (JObj kvs) \<Rightarrow>
                   (let p1 = dict_set ''topic'' (JStr topic) kvs;
                        p2 = dict_set ''difficulty'' (JStr (difficulty_value d)) p1;
                        p3 = dict_set ''generated_at'' (JStr (now x 0)) p2;
                        p4 = dict_set ''id''
                               (JStr (''gen_'' @ format_04d (str_hash x (JObj p3) mod 10000))) p3
                    in Inr (JObj p4))
               | Some _ \<Rightarrow> Inl TypeError))"

section \<open>The orchestrator (orchestrator.py)\<close>

record history_entry =
  entry_session_id :: string
  entry_start_time :: string
  entry_topics :: "string list"
  entry_difficulty :: string

record DSATutorSystem =
  teacher :: TeacherAgent
  hint_agent :: HintAgent
  current_student :: "string option"
  session_history :: "history_entry list"

text \<open>The system as its constructor leaves it.\<close>

definition new_system :: DSATutorSystem where
  "new_system =
     \<lparr>teacher = \<lparr>student_progress = Map.empty, current_session = None\<rparr>,
      hint_agent = \<lparr>hint_history = Map.empty\<rparr>,
      current_student = None,
      session_history = []\<rparr>"

definition start_learning_session ::
  "ext \<Rightarrow> DSATutorSystem \<Rightarrow> string \<Rightarrow> string list \<Rightarrow> string
     \<Rightarrow> (py_error + session_info) \<times> DSATutorSystem" where
  "start_learning_session x s sid ts difficulty_name =
     (case Difficulty difficulty_name of
        Inl e \<Rightarrow> (Inl e, s)
      | Inr difficulty_enum \<Rightarrow>
          (case start_teaching_session x (teacher s) sid ts difficulty_enum of
             (Inl e, t) \<Rightarrow> (Inl e, s\<lparr>teacher := t\<rparr>)
           | (Inr info, t) \<Rightarrow>
               (Inr info,
                s\<lparr>teacher := t,
                  current_student := Some sid,
                  session_history := session_history s @
                    [\<lparr>entry_session_id = info_session_id info,
                      entry_start_time = now x 1,
                      entry_topics = ts,
                      entry_difficulty = difficulty_name\<rparr>]\<rparr>)))"

definition generate_practice_question ::
  "ext \<Rightarrow> DSATutorSystem \<Rightarrow> string \<Rightarrow> string \<Rightarrow> string list option
     \<Rightarrow> (py_error + json) \<times> DSATutorSystem" where
  "generate_practice_question x s topic difficulty_name weakness =
     (case Difficulty difficulty_name of
        Inl e \<Rightarrow> (Inl e, s)
      | Inr difficulty_enum \<Rightarrow> (generate_question x topic difficulty_enum weakness, s))"

text \<open>\<^verbatim>\<open>student_info.get("code") if student_info else None\<close>: no dictionary and an empty
  one both give \<^verbatim>\<open>None\<close>.\<close>

definition get_hint ::
  "ext \<Rightarrow> DSATutorSystem \<Rightarrow> json \<Rightarrow> int \<Rightarrow> (string \<times> string) list option
     \<Rightarrow> (py_error + hint_reply) \<times> DSATutorSystem" where
  "get_hint x s problem requested student_info =
     (let student_code = (case student_info of
                            None \<Rightarrow> None
                          | Some info \<Rightarrow> if info = [] then None else map_of info ''code'');
          student_approach = (case student_info of
                                None \<Rightarrow> None
                              | Some info \<Rightarrow> if info = [] then None else map_of info ''approach'')
      in case get_progressive_hints x (hint_agent s) problem student_code student_approach
                requested of
           (reply, agent) \<Rightarrow> (reply, s\<lparr>hint_agent := agent\<rparr>))"

definition py_round1 :: "rat \<Rightarrow> rat" where
  "py_round1 v =
     (let scaled = v * 10;
          below = \<lfloor>scaled\<rfloor>;
          part = scaled - of_int below;
          digit = (if part < 1 / 2 then below
                   else if part > 1 / 2 then below + 1
                   else if even below then below else below + 1)
      in of_int digit / 10)"

text \<open>The record a student has in \<open>student_progress\<close> is the dictionary
  \<open>start_teaching_session\<close> builds: it has a key \<^verbatim>\<open>"weak_areas"\<close> and no key
  \<^verbatim>\<open>"strong_areas"\<close>, so \<^verbatim>\<open>progress.get("strong_areas", [])\<close> is the default.\<close>

definition generate_recommendations :: "progress \<Rightarrow> string list" where
  "generate_recommendations p =
     (let recommendations0 = [];
          recommendations1 =
            (if total_sessions p < 3
             then recommendations0 @ [''Complete more practice sessions to establish baseline'']
             else recommendations0);
          weak = weak_areas p;
          recommendations2 =
            (if weak \<noteq> []
             then recommendations1 @ [''Focus on improving: '' @ join '', '' (take 3 weak)]
             else recommendations1);
          strong = [];
          recommendations3 =
            (case strong of
               [] \<Rightarrow> recommendations2
             | strongest # _ \<Rightarrow>
                 recommendations2 @
                 [''Leverage your strength in '' @ strongest @ '' to tackle harder problems''])
      in recommendations3)"

record progress_report =
  report_student_id :: string
  report_total_sessions :: int
  average_mastery :: rat
  strong_areas :: "string list"
  report_weak_areas :: "string list"
  recommendations :: "string list"

text \<open>What \<open>get_student_progress\<close> returns: the dictionary \<^verbatim>\<open>{"error": ...}\<close> or the
  report.\<close>

datatype progress_reply = ErrorReply string | ProgressReport progress_report

definition get_student_progress ::
  "DSATutorSystem \<Rightarrow> string \<Rightarrow> (py_error + progress_reply) \<times> DSATutorSystem" where
  "get_student_progress s sid =
     (case student_progress (teacher s) sid of
        None \<Rightarrow> (Inr (ErrorReply ''Student not found''), s)
      | Some p \<Rightarrow>
          (let total_mastery = sum_list (map snd (topics_mastery p));
               avg_mastery = (if topics_mastery p \<noteq> []
                              then total_mastery / of_nat (length (topics_mastery p))
                              else 0);
               strong = map fst (filter (\<lambda>tm. snd tm \<ge> 70) (topics_mastery p));
               weak = map fst (filter (\<lambda>tm. snd tm < 50) (topics_mastery p))
           in (Inr (ProgressReport
                 \<lparr>report_student_id = sid,
                  report_total_sessions = total_sessions p,
                  average_mastery = py_round1 avg_mastery,
                  strong_areas = strong,
                  report_weak_areas = weak,
                  recommendations = generate_recommendations p\<rparr>),
               s)))"

section \<open>Specification-side definitions and sample inputs\<close>

text \<open>The score as the specification words it: four additions to zero, clamped to the
  range from 0 to 100. Its arguments are the four facts the specification names: no syntax
  issues, approach marked correct, number of edge cases handled, number of positives.\<close>

definition spec_score :: "bool \<Rightarrow> bool \<Rightarrow> nat \<Rightarrow> nat \<Rightarrow> int" where
  "spec_score no_issues approach_correct edge_cases positives =
     max 0 (min 100
       (0 + (if no_issues then 20 else 0)
          + (if approach_correct then 40 else 0)
          + (if edge_cases \<ge> 2 then 20 else if edge_cases = 1 then 10 else 0)
          + (if positives \<ge> 2 then 20 else if positives = 1 then 10 else 0)))"

text \<open>A marker occurs in a text when the text splits around it.\<close>

definition occurs_in :: "string \<Rightarrow> string \<Rightarrow> bool" where
  "occurs_in marker text = (\<exists>before after. text = before @ marker @ after)"

text \<open>Consecutive \<open>get_hint\<close> calls for one problem with the default arguments (level 0, no
  student information), one outside world per call.\<close>

fun consecutive_hints ::
  "ext list \<Rightarrow> DSATutorSystem \<Rightarrow> json \<Rightarrow> (py_error + hint_reply) list \<times> DSATutorSystem" where
  "consecutive_hints [] s problem = ([], s)"
| "consecutive_hints (x # xs) s problem =
     (case get_hint x s problem 0 None of
        (reply, s1) \<Rightarrow>
          (case consecutive_hints xs s1 problem of
             (replies, s2) \<Rightarrow> (reply # replies, s2)))"

text \<open>An outside world whose model answers every prompt with the same text, which is not
  JSON, and whose search finds nothing.\<close>

definition answering :: "string \<Rightarrow> ext" where
  "answering text =
     \<lparr>llm = (\<lambda>p. Inr text),
      json_loads = (\<lambda>content. None),
      similarity_search = (\<lambda>question k. Inr []),
      uuid4 = ''123e4567-e89b-12d3-a456-426614174000'',
      now = (\<lambda>k. ''2024-01-01T00:00:00''),
      str_hash = (\<lambda>v. 0)\<rparr>"

text \<open>An outside world whose model answers the three prompts of an evaluation with JSON
  text, which the parser reads.\<close>

definition assessment_text :: string where
  \<open>assessment_text =
     ''{"approach_correct": true, "edge_cases_handled": ["empty input", "duplicates"]}''\<close>

definition feedback_text :: string where
  \<open>feedback_text = ''{"positives": ["clear names", "linear time"]}''\<close>

definition grading :: ext where
  "grading =
     \<lparr>llm = (\<lambda>p. case p of
                 ConceptualTestsPrompt title description examples code \<Rightarrow> Inr assessment_text
               | FeedbackPrompt title code explanation results \<Rightarrow> Inr feedback_text
               | _ \<Rightarrow> Inr ''[]''),
      json_loads = (\<lambda>content.
                 if content = assessment_text then
                   Some (JObj [(''approach_correct'', JBool True),
                               (''edge_cases_handled'',
                                  JArr [JStr ''empty input'', JStr ''duplicates''])])
                 else if content = feedback_text then
                   Some (JObj [(''positives'', JArr [JStr ''clear names'', JStr ''linear time''])])
                 else if content = ''[]'' then Some (JArr [])
                 else None),
      similarity_search = (\<lambda>question k. Inr []),
      uuid4 = ''123e4567-e89b-12d3-a456-426614174000'',
      now = (\<lambda>k. ''2024-01-01T00:00:00''),
      str_hash = (\<lambda>v. 0)\<rparr>"

definition two_sum :: json where
  "two_sum =
     JObj [(''id'', JStr ''two_sum''),
           (''title'', JStr ''Two Sum''),
           (''description'', JStr ''Return indices of the two numbers that add up to target.'')]"

definition two_sum_code :: string where
  "two_sum_code =
     ''def twoSum(nums, target):'' @ CHR 0x0A #
     ''    seen = {}'' @ CHR 0x0A #
     ''    for i, num in enumerate(nums):'' @ CHR 0x0A #
     ''        if target - num in seen:'' @ CHR 0x0A #
     ''            return [seen[target - num], i]'' @ CHR 0x0A #
     ''        seen[num] = i'' @ CHR 0x0A #
     ''    return []''"

text \<open>An outside world whose model tells the four hint prompts apart: it answers each with
  a text of its own tier, and every other prompt fails.\<close>

definition tiered :: ext where
  "tiered =
     \<lparr>llm = (\<lambda>p. case p of
                 Level0HintPrompt title shown \<Rightarrow> Inr ''Which lookup structure fits here?''
               | Level1HintPrompt title shown approach \<Rightarrow> Inr ''Solve the lookup first.''
               | Level2HintPrompt title shown code \<Rightarrow> Inr ''Check the loop that fills the map.''
               | Level3HintPrompt title shown \<Rightarrow>
                   Inr ''Use a hash map from value to index, one pass, O(n).''
               | _ \<Rightarrow> Inl (ExternalError ''unexpected prompt'')),
      json_loads = (\<lambda>content. None),
      similarity_search = (\<lambda>question k. Inr []),
      uuid4 = ''123e4567-e89b-12d3-a456-426614174000'',
      now = (\<lambda>k. ''2024-01-01T00:00:00''),
      str_hash = (\<lambda>v. 0)\<rparr>"

section \<open>Auxiliary facts\<close>

lemma and_then_Inr_iff:
  "and_then m f = Inr y \<longleftrightarrow> (\<exists>v. m = Inr v \<and> f v = Inr y)"
  by (cases m) auto

lemma startswith_iff: "startswith p s \<longleftrightarrow> (\<exists>rest. s = p @ rest)"
  by (induction p s rule: startswith.induct) auto

lemma occurs_in_Cons:
  "occurs_in m (c # cs) \<longleftrightarrow> (\<exists>rest. c # cs = m @ rest) \<or> occurs_in m cs"
proof
  assume "occurs_in m (c # cs)"
  then obtain before after where eq: "c # cs = before @ m @ after"
    by (auto simp: occurs_in_def)
  show "(\<exists>rest. c # cs = m @ rest) \<or> occurs_in m cs"
  proof (cases before)
    case Nil
    with eq show ?thesis by auto
  next
    case (Cons b bs)
    with eq have "cs = bs @ m @ after" by simp
    then show ?thesis by (auto simp: occurs_in_def)
  qed
next
  assume "(\<exists>rest. c # cs = m @ rest) \<or> occurs_in m cs"
  then show "occurs_in m (c # cs)"
  proof
    assume "\<exists>rest. c # cs = m @ rest"
    then obtain rest where "c # cs = [] @ m @ rest" by auto
    then show ?thesis unfolding occurs_in_def by blast
  next
    assume "occurs_in m cs"
    then obtain before after where "cs = before @ m @ after"
      by (auto simp: occurs_in_def)
    then have "c # cs = (c # before) @ m @ after" by simp
    then show ?thesis unfolding occurs_in_def by blast
  qed
qed

lemma contains_occurs_in: "contains m s \<longleftrightarrow> occurs_in m s"
proof (induction s)
  case Nil
  show ?case by (auto simp: occurs_in_def)
next
  case (Cons c cs)
  then show ?case by (simp add: startswith_iff occurs_in_Cons)
qed

lemma spec_score_range: "0 \<le> spec_score a b n m \<and> spec_score a b n m \<le> 100"
  by (simp add: spec_score_def)

lemma calculate_score_eq:
  assumes "py_get results ''approach_correct'' (JBool False) = Inr approach"
    and "py_get results ''edge_cases_handled'' (JArr []) = Inr edge_cases"
    and "py_len edge_cases = Inr n"
    and "py_get fb ''positives'' (JArr []) = Inr positives"
    and "py_len positives = Inr m"
  shows "calculate_score syntax results fb
           = Inr (spec_score (\<not> has_issues syntax) (truthy approach) n m)"
  using assms by (simp add: calculate_score_def spec_score_def Let_def)

lemma calculate_score_Inr:
  assumes "calculate_score syntax results fb = Inr s"
  shows "\<exists>approach n m. s = spec_score (\<not> has_issues syntax) (truthy approach) n m"
proof -
  from assms obtain approach edge_cases n positives m
    where "py_get results ''approach_correct'' (JBool False) = Inr approach"
      and "py_get results ''edge_cases_handled'' (JArr []) = Inr edge_cases"
      and "py_len edge_cases = Inr n"
      and "py_get fb ''positives'' (JArr []) = Inr positives"
      and "py_len positives = Inr m"
    unfolding calculate_score_def Let_def and_then_Inr_iff by blast
  from calculate_score_eq [OF this] assms show ?thesis
    by auto
qed

lemma calculate_score_range:
  "calculate_score syntax results fb = Inr s \<Longrightarrow> 0 \<le> s \<and> s \<le> 100"
  using calculate_score_Inr spec_score_range by blast

lemma check_syntax_two_sum_code:
  "check_syntax two_sum_code =
     \<lparr>has_issues = False, issues = [], code_length = 186, line_count = 7\<rparr>"
  by (simp add: check_syntax_def two_sum_code_def strip_def isspace_def Let_def
      line_count_of_def)

lemma distinct_texts:
  "assessment_text \<noteq> feedback_text" "feedback_text \<noteq> ''[]''" "assessment_text \<noteq> ''[]''"
  by (simp_all add: assessment_text_def feedback_text_def)

section \<open>The evaluator's score\<close>

text \<open>
  Claim C2. Whenever the two dictionaries give the score computation what it reads (a value
  for the approach, and two values that have a length), the score is the specification's
  formula: start at 0; add 20 if the static check reported no issues; add 40 if the
  assessment marks the approach correct (the value is true for Python); add 20 if at least
  two edge cases are handled, 10 if exactly one; add 20 if the feedback has at least two
  positives, 10 if exactly one; clamp to the range from 0 to 100. With no issues, a
  correct approach, two edge cases and two positives the score is exactly 100.
\<close>

theorem calculate_score_formula:
  assumes "py_get results ''approach_correct'' (JBool False) = Inr approach"
    and "py_get results ''edge_cases_handled'' (JArr []) = Inr edge_cases"
    and "py_len edge_cases = Inr n"
    and "py_get fb ''positives'' (JArr []) = Inr positives"
    and "py_len positives = Inr m"
  shows "calculate_score syntax results fb
           = Inr (spec_score (\<not> has_issues syntax) (truthy approach) n m)
         \<and> (\<not> has_issues syntax \<and> truthy approach \<and> n = 2 \<and> m = 2
              \<longrightarrow> calculate_score syntax results fb = Inr 100)"
proof -
  have formula: "calculate_score syntax results fb
           = Inr (spec_score (\<not> has_issues syntax) (truthy approach) n m)"
    using assms by (rule calculate_score_eq)
  have "spec_score True True 2 2 = 100"
    by (simp add: spec_score_def)
  with formula show ?thesis
    by simp
qed

theorem calculate_score_formula_witness:
  "calculate_score (check_syntax two_sum_code)
     (JObj [(''approach_correct'', JBool True),
            (''edge_cases_handled'', JArr [JStr ''empty input'', JStr ''duplicates''])])
     (JObj [(''positives'', JArr [JStr ''clear names'', JStr ''linear time''])])
   = Inr 100"
proof -
  have "spec_score True True 2 2 = 100"
    by (simp add: spec_score_def)
  then show ?thesis
    using calculate_score_formula [of
        "JObj [(''approach_correct'', JBool True),
               (''edge_cases_handled'', JArr [JStr ''empty input'', JStr ''duplicates''])]"
        "JBool True" "JArr [JStr ''empty input'', JStr ''duplicates'']" 2
        "JObj [(''positives'', JArr [JStr ''clear names'', JStr ''linear time''])]"
        "JArr [JStr ''clear names'', JStr ''linear time'']" 2
        "check_syntax two_sum_code"]
    by (simp add: check_syntax_two_sum_code)
qed

text \<open>
  Claim C3. Every evaluation that returns a result returns a score between 0 and 100, and
  a correctness flag that is true exactly when the score is at least 70.
\<close>

theorem evaluate_solution_score_range:
  assumes "evaluate_solution x problem student_code student_explanation = Inr r"
  shows "0 \<le> score r \<and> score r \<le> 100 \<and> correctness r = (score r \<ge> 70)"
proof -
  from assms obtain results fb sc
    where sc: "calculate_score (check_syntax student_code) results fb = Inr sc"
      and "score r = sc" and "correctness r = (sc \<ge> 70)"
    unfolding evaluate_solution_def Let_def and_then_Inr_iff by auto
  with calculate_score_range [OF sc] show ?thesis
    by simp
qed

theorem evaluate_solution_score_range_witness:
  "(case evaluate_solution grading two_sum two_sum_code None of
      Inl e \<Rightarrow> False
    | Inr r \<Rightarrow> score r = 100 \<and> 0 \<le> score r \<and> score r \<le> 100
               \<and> correctness r \<and> correctness r = (score r \<ge> 70))"
proof -
  have "\<exists>r. evaluate_solution grading two_sum two_sum_code None = Inr r \<and> score r = 100"
    using distinct_texts
    by (simp add: evaluate_solution_def check_syntax_two_sum_code run_conceptual_tests_def
        generate_feedback_def calculate_score_def suggest_improvements_def grading_def
        two_sum_def Let_def)
  then obtain r where r: "evaluate_solution grading two_sum two_sum_code None = Inr r"
    and "score r = 100"
    by blast
  with evaluate_solution_score_range [OF r] show ?thesis
    by simp
qed

section \<open>The conceptual assessment\<close>

text \<open>
  Claim C4. When the model answers the assessment prompt with text that \<open>json_loads\<close>
  rejects, the conceptual-assessment step returns (it does not raise) exactly the default
  object: approach not correct, no edge cases, both complexities \<^verbatim>\<open>Unknown\<close>, and the single
  bug note \<^verbatim>\<open>Could not parse evaluation\<close>.
\<close>

theorem run_conceptual_tests_unparseable:
  assumes "py_get problem ''title'' JNull = Inr title"
    and "py_get problem ''description'' (JStr []) = Inr description"
    and "py_get problem ''examples'' (JArr []) = Inr examples"
    and "llm x (ConceptualTestsPrompt title description examples code) = Inr content"
    and "json_loads x content = None"
  shows "run_conceptual_tests x problem code =
           Inr (JObj [(''approach_correct'', JBool False),
                      (''edge_cases_handled'', JArr []),
                      (''time_complexity'', JStr ''Unknown''),
                      (''space_complexity'', JStr ''Unknown''),
                      (''potential_bugs'', JArr [JStr ''Could not parse evaluation''])])"
  using assms by (simp add: run_conceptual_tests_def conceptual_default_def)

theorem run_conceptual_tests_unparseable_witness:
  "run_conceptual_tests (answering ''The approach looks fine to me.'') two_sum two_sum_code =
     Inr (JObj [(''approach_correct'', JBool False),
                (''edge_cases_handled'', JArr []),
                (''time_complexity'', JStr ''Unknown''),
                (''space_complexity'', JStr ''Unknown''),
                (''potential_bugs'', JArr [JStr ''Could not parse evaluation''])])"
  by (rule run_conceptual_tests_unparseable
        [where content = "''The approach looks fine to me.''"])
     (simp_all add: two_sum_def answering_def)

section \<open>The static check\<close>

text \<open>
  Claim C7. For every code string the static check reports exactly these
  issues: \<^verbatim>\<open>Code appears incomplete\<close> if and only if the stripped code has fewer than 10
  characters; \<^verbatim>\<open>No function or class definition found\<close> if and only if neither \<^verbatim>\<open>def \<close> nor
  \<^verbatim>\<open>class \<close> occurs in the code; the infinite-loop warning if and only if \<^verbatim>\<open>while True:\<close>
  occurs and \<^verbatim>\<open>break\<close> occurs nowhere in the text; the imports note if and only if
  \<^verbatim>\<open>import \<close> occurs; nothing else is reported and nothing twice; and \<open>has_issues\<close> holds if
  and only if the list of issues is not empty. In particular the code \<^verbatim>\<open>x=1\<close> gets exactly
  the two issues incomplete and no definition found, with \<open>has_issues\<close> true (the check
  counts 3 characters and one line for it).
\<close>

theorem check_syntax_issues:
  "(''Code appears incomplete'' \<in> set (issues (check_syntax code))
      \<longleftrightarrow> length (strip code) < 10)
   \<and> (''No function or class definition found'' \<in> set (issues (check_syntax code))
      \<longleftrightarrow> \<not> occurs_in ''def '' code \<and> \<not> occurs_in ''class '' code)
   \<and> (''Potential infinite loop detected'' \<in> set (issues (check_syntax code))
      \<longleftrightarrow> occurs_in ''while True:'' code \<and> \<not> occurs_in ''break'' code)
   \<and> (''Note: Imports detected - ensure they're allowed'' \<in> set (issues (check_syntax code))
      \<longleftrightarrow> occurs_in ''import '' code)
   \<and> set (issues (check_syntax code)) \<subseteq>
        {''Code appears incomplete'', ''No function or class definition found'',
         ''Potential infinite loop detected'',
         ''Note: Imports detected - ensure they're allowed''}
   \<and> distinct (issues (check_syntax code))
   \<and> (has_issues (check_syntax code) \<longleftrightarrow> issues (check_syntax code) \<noteq> [])
   \<and> check_syntax ''x=1'' =
        \<lparr>has_issues = True,
         issues = [''Code appears incomplete'', ''No function or class definition found''],
         code_length = 3, line_count = 1\<rparr>"
proof -
  have incomplete: "''Code appears incomplete'' \<in> set (issues (check_syntax code))
      \<longleftrightarrow> length (strip code) < 10"
    by (simp add: check_syntax_def Let_def)
  have no_definition:
    "''No function or class definition found'' \<in> set (issues (check_syntax code))
      \<longleftrightarrow> \<not> occurs_in ''def '' code \<and> \<not> occurs_in ''class '' code"
    by (simp add: check_syntax_def Let_def contains_occurs_in)
  have infinite_loop:
    "''Potential infinite loop detected'' \<in> set (issues (check_syntax code))
      \<longleftrightarrow> occurs_in ''while True:'' code \<and> \<not> occurs_in ''break'' code"
    by (simp add: check_syntax_def Let_def contains_occurs_in)
  have imported:
    "''Note: Imports detected - ensure they're allowed'' \<in> set (issues (check_syntax code))
      \<longleftrightarrow> occurs_in ''import '' code"
    by (simp add: check_syntax_def Let_def contains_occurs_in)
  have only: "set (issues (check_syntax code)) \<subseteq>
        {''Code appears incomplete'', ''No function or class definition found'',
         ''Potential infinite loop detected'',
         ''Note: Imports detected - ensure they're allowed''}"
    by (auto simp: check_syntax_def Let_def)
  have once: "distinct (issues (check_syntax code))"
    by (simp add: check_syntax_def Let_def)
  have flag: "has_issues (check_syntax code) \<longleftrightarrow> issues (check_syntax code) \<noteq> []"
    by (simp add: check_syntax_def Let_def)
  have scenario: "check_syntax ''x=1'' =
        \<lparr>has_issues = True,
         issues = [''Code appears incomplete'', ''No function or class definition found''],
         code_length = 3, line_count = 1\<rparr>"
    by (simp add: check_syntax_def Let_def strip_def isspace_def line_count_of_def)
  from incomplete no_definition infinite_loop imported only once flag scenario
  show ?thesis by blast
qed

theorem check_syntax_issues_witness:
  "check_syntax (''import os'' @ CHR 0x0A # ''while True:'' @ CHR 0x0A # ''    pass'') =
     \<lparr>has_issues = True,
      issues = [''No function or class definition found'',
                ''Potential infinite loop detected'',
                ''Note: Imports detected - ensure they're allowed''],
      code_length = 30, line_count = 3\<rparr>"
  using check_syntax_issues
          [of "''import os'' @ CHR 0x0A # ''while True:'' @ CHR 0x0A # ''    pass''"]
  by (simp add: check_syntax_def Let_def strip_def isspace_def line_count_of_def)

section \<open>The hint progression\<close>

text \<open>
  Claim C1 says that the levels returned by consecutive \<open>get_hint\<close> calls for a fresh
  problem, and the level stored, never exceed the maximum of 3. The code stores the level
  of the hint it gave plus one and never clamps it: five consecutive calls with the
  default arguments return the levels 0, 1, 2, 3 and 4, the fifth reply carries
  \<open>hint_level = 4\<close> beside \<open>max_level = 3\<close>, and the stored level is then 5.
\<close>

theorem consecutive_hints_pass_maximum:
  "fst (consecutive_hints
          [answering ''Think about a hash map.'', answering ''Think about a hash map.'',
           answering ''Think about a hash map.'', answering ''Think about a hash map.'',
           answering ''Think about a hash map.''] new_system two_sum) =
     [Inr \<lparr>hint = ''Think about a hash map.'', hint_level = 0, max_level = 3,
           next_level_available = True\<rparr>,
      Inr \<lparr>hint = ''Think about a hash map.'', hint_level = 1, max_level = 3,
           next_level_available = True\<rparr>,
      Inr \<lparr>hint = ''Think about a hash map.'', hint_level = 2, max_level = 3,
           next_level_available = True\<rparr>,
      Inr \<lparr>hint = ''Think about a hash map.'', hint_level = 3, max_level = 3,
           next_level_available = False\<rparr>,
      Inr \<lparr>hint = ''Think about a hash map.'', hint_level = 4, max_level = 3,
           next_level_available = False\<rparr>]
   \<and> hint_history (hint_agent (snd (consecutive_hints
          [answering ''Think about a hash map.'', answering ''Think about a hash map.'',
           answering ''Think about a hash map.'', answering ''Think about a hash map.'',
           answering ''Think about a hash map.''] new_system two_sum))) (KStr ''two_sum'')
       = Some 5"
  by (simp add: get_hint_def get_progressive_hints_def get_level_0_hint_def
      get_level_1_hint_def get_level_2_hint_def get_level_3_hint_def answering_def
      two_sum_def new_system_def Let_def)

lemma level_3_generator_answers:
  assumes "3 \<le> requested"
    and "py_get problem ''id'' (JStr ''unknown'') = Inr id_value"
    and "py_hash id_value = Inr problem_id"
    and "get_level_3_hint x problem = Inr content"
  shows "fst (get_progressive_hints x agent problem student_code student_approach requested) =
           Inr \<lparr>hint = content,
                hint_level = max (case hint_history agent problem_id of
                                    None \<Rightarrow> 0 | Some stored \<Rightarrow> stored) requested,
                max_level = 3, next_level_available = False\<rparr>"
proof (cases "hint_history agent problem_id")
  case None
  have "max 0 requested = requested"
    using assms(1) by simp
  then show ?thesis
    using assms None by (simp add: get_progressive_hints_def Let_def)
next
  case (Some stored)
  obtain level where level: "max stored requested = level" and "3 \<le> level"
    using assms(1) by simp
  then show ?thesis
    using assms(2-4) Some by (simp add: get_progressive_hints_def Let_def)
qed

text \<open>
  Claim C6. A hint request at level 3 or above, for a problem whose id can be a dictionary
  key, produces the level-3 (near-solution) hint and not an error: the prompt sent to the
  model is the near-solution prompt, built from the problem's title and the first 500
  characters of its description, and the text the model answers to that prompt is the hint
  of the reply. This holds for every stored history, so also for the first request on a
  fresh problem id, and for every requested level above 3.
\<close>

theorem get_progressive_hints_terminal:
  assumes "3 \<le> requested"
    and "py_get problem ''id'' (JStr ''unknown'') = Inr id_value"
    and "py_hash id_value = Inr problem_id"
    and "py_get problem ''title'' JNull = Inr title"
    and "py_get problem ''description'' (JStr []) = Inr description"
    and "py_slice_to 500 description = Inr shown"
    and "llm x (Level3HintPrompt title shown) = Inr content"
  shows "fst (get_progressive_hints x agent problem student_code student_approach requested) =
           Inr \<lparr>hint = content,
                hint_level = max (case hint_history agent problem_id of
                                    None \<Rightarrow> 0 | Some stored \<Rightarrow> stored) requested,
                max_level = 3, next_level_available = False\<rparr>"
proof -
  have "get_level_3_hint x problem = Inr content"
    using assms(4-7) by (simp add: get_level_3_hint_def)
  with assms(1-3) show ?thesis
    by (rule level_3_generator_answers)
qed

theorem get_progressive_hints_terminal_witness:
  "fst (get_progressive_hints tiered \<lparr>hint_history = Map.empty\<rparr> two_sum None None 3) =
     Inr \<lparr>hint = ''Use a hash map from value to index, one pass, O(n).'', hint_level = 3,
          max_level = 3, next_level_available = False\<rparr>
   \<and> fst (get_progressive_hints tiered \<lparr>hint_history = Map.empty\<rparr> two_sum None None 7) =
     Inr \<lparr>hint = ''Use a hash map from value to index, one pass, O(n).'', hint_level = 7,
          max_level = 3, next_level_available = False\<rparr>
   \<and> fst (get_progressive_hints tiered \<lparr>hint_history = Map.empty\<rparr> two_sum None None 0) =
     Inr \<lparr>hint = ''Which lookup structure fits here?'', hint_level = 0,
          max_level = 3, next_level_available = True\<rparr>"
proof -
  have id_value: "py_get two_sum ''id'' (JStr ''unknown'') = Inr (JStr ''two_sum'')"
    by (simp add: two_sum_def)
  have key: "py_hash (JStr ''two_sum'') = Inr (KStr ''two_sum'')"
    by simp
  have title: "py_get two_sum ''title'' JNull = Inr (JStr ''Two Sum'')"
    by (simp add: two_sum_def)
  have description: "py_get two_sum ''description'' (JStr []) =
      Inr (JStr ''Return indices of the two numbers that add up to target.'')"
    by (simp add: two_sum_def)
  have shown: "py_slice_to 500
      (JStr ''Return indices of the two numbers that add up to target.'') =
      Inr (JStr ''Return indices of the two numbers that add up to target.'')"
    by simp
  have answer: "llm tiered (Level3HintPrompt (JStr ''Two Sum'')
      (JStr ''Return indices of the two numbers that add up to target.'')) =
      Inr ''Use a hash map from value to index, one pass, O(n).''"
    by (simp add: tiered_def)
  have conceptual:
    "fst (get_progressive_hints tiered \<lparr>hint_history = Map.empty\<rparr> two_sum None None 0) =
       Inr \<lparr>hint = ''Which lookup structure fits here?'', hint_level = 0,
            max_level = 3, next_level_available = True\<rparr>"
    by (simp add: get_progressive_hints_def get_level_0_hint_def tiered_def two_sum_def
        Let_def)
  show ?thesis
    using conceptual
      get_progressive_hints_terminal [OF _ id_value key title description shown answer,
            of 3 "\<lparr>hint_history = Map.empty\<rparr>" None None]
      get_progressive_hints_terminal [OF _ id_value key title description shown answer,
            of 7 "\<lparr>hint_history = Map.empty\<rparr>" None None]
    by simp
qed

section \<open>The progress report\<close>

text \<open>
  Claim C5 says that the report derives a recommendation naming the first three weak
  topics when the weak set is not empty, and one naming the first strong topic when the
  strong set is not empty. The report computes the two sets from the mastery values, but
  the recommendations read the stored record, whose \<^verbatim>\<open>weak_areas\<close> list is never filled and
  which has no \<^verbatim>\<open>strong_areas\<close> entry. After one session every one of the eleven topics is
  weak (mastery 0) and the only recommendation is the one about the baseline.
\<close>

theorem recommendations_ignore_weak_areas:
  "fst (get_student_progress
          (snd (start_learning_session (answering ''Welcome!'') new_system
                  ''alice'' [''Arrays''] ''Easy''))
          ''alice'') =
     Inr (ProgressReport
       \<lparr>report_student_id = ''alice'', report_total_sessions = 1,
        average_mastery = 0, strong_areas = [],
        report_weak_areas =
          [''Arrays'', ''Linked Lists'', ''Trees'', ''Graphs'', ''Sorting'', ''Searching'',
           ''Dynamic Programming'', ''Recursion'', ''Backtracking'', ''Queues'', ''Stacks''],
        recommendations = [''Complete more practice sessions to establish baseline'']\<rparr>)"
  by (simp add: get_student_progress_def start_learning_session_def Difficulty_def
      start_teaching_session_def topic_plan_def query_def generate_welcome_message_def
      initial_progress_def Topic_values_def generate_recommendations_def py_round1_def
      answering_def new_system_def Let_def)

text \<open>
  Claim C8. For a student id with no stored record, \<open>get_student_progress\<close> returns (it
  does not raise) the error dictionary \<^verbatim>\<open>{"error": "Student not found"}\<close>, which is not a
  report.
\<close>

theorem get_student_progress_not_found:
  assumes "student_progress (teacher s) sid = None"
  shows "fst (get_student_progress s sid) = Inr (ErrorReply ''Student not found'')"
  using assms by (simp add: get_student_progress_def)

theorem get_student_progress_not_found_witness:
  "fst (get_student_progress new_system ''student_404'') = Inr (ErrorReply ''Student not found'')"
  by (rule get_student_progress_not_found) (simp add: new_system_def)

text \<open>
  Claim C9. \<open>get_student_progress\<close> leaves the whole system as it found it, for a known and
  for an unknown student id: the progress records, the hint history and the session
  history are the same after the call as before.
\<close>

theorem get_student_progress_pure:
  "snd (get_student_progress s sid) = s
   \<and> student_progress (teacher (snd (get_student_progress s sid))) = student_progress (teacher s)
   \<and> hint_history (hint_agent (snd (get_student_progress s sid))) = hint_history (hint_agent s)
   \<and> session_history (snd (get_student_progress s sid)) = session_history s"
proof -
  have "snd (get_student_progress s sid) = s"
    by (simp add: get_student_progress_def Let_def split: option.split)
  then show ?thesis by simp
qed

theorem get_student_progress_pure_witness:
  "snd (get_student_progress new_system ''student_404'') = new_system"
  using get_student_progress_pure [of new_system "''student_404''"] by simp

section \<open>Difficulty names\<close>

text \<open>
  Claim C10. For a difficulty name other than \<^verbatim>\<open>Easy\<close>, \<^verbatim>\<open>Medium\<close> and \<^verbatim>\<open>Hard\<close>, both
  \<open>start_learning_session\<close> and \<open>generate_practice_question\<close> raise \<^verbatim>\<open>ValueError\<close> to their
  caller, before anything is changed; neither returns a result or falls back to a default
  difficulty.
\<close>

theorem invalid_difficulty_raises:
  assumes "difficulty_name \<notin> {''Easy'', ''Medium'', ''Hard''}"
  shows "start_learning_session x s sid ts difficulty_name = (Inl ValueError, s)
         \<and> generate_practice_question x s topic difficulty_name weakness = (Inl ValueError, s)"
  using assms
  by (simp add: start_learning_session_def generate_practice_question_def Difficulty_def)

theorem invalid_difficulty_raises_witness:
  "start_learning_session (answering ''Welcome!'') new_system ''alice'' [''Arrays''] ''Expert''
     = (Inl ValueError, new_system)
   \<and> generate_practice_question (answering ''Welcome!'') new_system ''Arrays'' ''Expert'' None
     = (Inl ValueError, new_system)"
  by (rule invalid_difficulty_raises) simp

end
